theory Spec2Isabelle
  imports Complex_Main "HOL-Library.Multiset" "HOL-Library.List_Lexorder" "HOL-Library.Char_ord"
begin

section \<open>The submission review page: inline comments, highlight renderer, rubric scores\<close>

text \<open>
  The development embeds the state-handling functions of \<^verbatim>\<open>SubmissionReviewPage\<close>
  (\<^verbatim>\<open>src/unnamed/part_000\<close>). A JavaScript string is a \<^typ>\<open>string\<close>, one
  \<^typ>\<open>char\<close> per code unit; an index (\<^verbatim>\<open>startIndex\<close>, \<^verbatim>\<open>endIndex\<close>) is an
  \<^typ>\<open>int\<close>, since nothing in the page keeps it inside the text or even non-negative;
  a stored score is a \<^typ>\<open>real\<close>, the finite double seen as the number it denotes;
  the additions, the division and the multiplication of doubles that recompute the
  final score round, and enter as parameters.
  The React state is a record that every handler takes and returns. Values the
  handlers draw from the environment (the clock, \<^verbatim>\<open>Math.random\<close>, local storage,
  the DOM selection, the server's answers) are explicit arguments.
\<close>

subsection \<open>Data\<close>

text \<open>
  A JavaScript number where it may be other than finite: not a number, an infinity
  or a finite value.
\<close>

datatype jsnum = NaN | NegInfinity | Finite real | Infinity

record InlineComment =
  comment_id :: string
  startIndex :: int
  endIndex :: int
  comment_text :: string
  color :: string
  timestamp :: string
  author :: string
  isAIGenerated :: "bool option"
  db_id :: "string option"

record SubScore =
  sub_id :: "string option"
  name :: string
  score :: real
  maxScore :: real
  rationale :: string

record OverallFeedback =
  strengths :: string
  improvements :: string
  actionItems :: string

record AICheckerDetail =
  section_name :: string
  aiProbability :: real
  humanProbability :: real

record AICheckerResult =
  ai_score :: real
  confidence :: string
  details :: "AICheckerDetail list"

record SubmissionDetails =
  sd_id :: string
  content :: string
  sd_score :: "real option"
  sd_subScores :: "SubScore list option"
  sd_overallFeedback :: "OverallFeedback option"
  sd_inlineComments :: "InlineComment list option"
  aiCheckerResults :: "AICheckerResult option"

text \<open>The component state (the \<^verbatim>\<open>useState\<close> cells the handlers below read or write).\<close>

record page_state =
  submissionDetails :: "SubmissionDetails option"
  inlineComments :: "InlineComment list"
  overallFeedback :: OverallFeedback
  subScores :: "SubScore list"
  finalScore :: jsnum
  newCommentText :: string
  selectedText :: string
  selectionRange :: "(nat \<times> nat) option"
  activeCommentId :: "string option"
  isCommentMode :: bool

subsection \<open>String primitives of the platform\<close>

text \<open>
  \<^verbatim>\<open>String.prototype.substring(a, b)\<close>: each argument is clamped to \<open>[0, length]\<close>
  and the two are swapped when the first is the larger.
\<close>

definition clampIndex :: "string \<Rightarrow> int \<Rightarrow> nat" where
  "clampIndex s i = nat (min (max i 0) (int (length s)))"

definition substring :: "string \<Rightarrow> int \<Rightarrow> int \<Rightarrow> string" where
  "substring s a b =
     (let from = min (clampIndex s a) (clampIndex s b);
          to = max (clampIndex s a) (clampIndex s b)
      in take (to - from) (drop from s))"

text \<open>\<^verbatim>\<open>substring(a)\<close> with one argument runs to the end of the string.\<close>

definition substringFrom :: "string \<Rightarrow> int \<Rightarrow> string" where
  "substringFrom s a = substring s a (int (length s))"

text \<open>
  \<^verbatim>\<open>String.prototype.trim\<close> strips white space and line terminators at both ends;
  within one-byte code units these are TAB, LF, VT, FF, CR, SPACE and NBSP.
\<close>

definition isWhiteSpace :: "char \<Rightarrow> bool" where
  "isWhiteSpace c = (of_char c \<in> {9, 10, 11, 12, 13, 32, 160 :: nat})"

definition trim :: "string \<Rightarrow> string" where
  "trim s = rev (dropWhile isWhiteSpace (rev (dropWhile isWhiteSpace s)))"

subsection \<open>Display order\<close>

text \<open>
  \<^verbatim>\<open>[...inlineComments].sort((a, b) => a.startIndex - b.startIndex)\<close> in the
  renderer, on a copy, and the same comparator in the sidebar, there on the state
  array itself. \<^verbatim>\<open>Array.prototype.sort\<close> is stable and the comparator looks at
  \<^verbatim>\<open>startIndex\<close> only, which determines the result: the stable sort by that
  key. Sorting the state array in place does not change what a later sort of it
  yields, so one function stands for both places.
\<close>

definition sortByStartIndex :: "InlineComment list \<Rightarrow> InlineComment list" where
  "sortByStartIndex cs = sort_key startIndex cs"

subsection \<open>The highlight renderer\<close>

datatype segment =
  TextSeg string
  | HighlightSeg string InlineComment

fun segment_content :: "segment \<Rightarrow> string" where
  "segment_content (TextSeg s) = s"
| "segment_content (HighlightSeg s c) = s"

text \<open>
  The body of the \<^verbatim>\<open>forEach\<close>: the state of the walk is the segments pushed so far
  and \<^verbatim>\<open>lastIndex\<close>.
\<close>

definition pushComment :: "string \<Rightarrow> segment list \<times> int \<Rightarrow> InlineComment \<Rightarrow> segment list \<times> int" where
  "pushComment text acc c =
     (let segments = fst acc; lastIndex = snd acc;
          segments1 = (if startIndex c > lastIndex
                       then segments @ [TextSeg (substring text lastIndex (startIndex c))]
                       else segments);
          segments2 = segments1 @ [HighlightSeg (substring text (startIndex c) (endIndex c)) c]
      in (segments2, endIndex c))"

definition walkComments :: "string \<Rightarrow> InlineComment list \<Rightarrow> segment list \<times> int" where
  "walkComments text cs = foldl (pushComment text) ([], 0) (sortByStartIndex cs)"

text \<open>
  \<^verbatim>\<open>renderHighlightedContent\<close> up to the segment list (the paragraph grouping that
  follows only lays the segments out). \<open>None\<close> is the placeholder paragraph shown
  when there is no submission or its content is empty.
\<close>

definition renderHighlightedContent :: "page_state \<Rightarrow> segment list option" where
  "renderHighlightedContent st =
     (case submissionDetails st of
        None \<Rightarrow> None
      | Some d \<Rightarrow>
          if content d = [] then None
          else let w = walkComments (content d) (inlineComments st);
                   segments = fst w; lastIndex = snd w
               in Some (if lastIndex < int (length (content d))
                        then segments @ [TextSeg (substringFrom (content d) lastIndex)]
                        else segments))"

text \<open>The concatenation of the segment values, in order.\<close>

definition renderedText :: "page_state \<Rightarrow> string" where
  "renderedText st =
     (case renderHighlightedContent st of
        None \<Rightarrow> []
      | Some segments \<Rightarrow> concat (map segment_content segments))"

subsection \<open>Values drawn from the environment\<close>

text \<open>
  What one comment creation reads from outside the state: \<^verbatim>\<open>Date.now()\<close> in
  decimal, the hexadecimal digits of \<^verbatim>\<open>Math.random().toString(16).slice(2)\<close>,
  the \<^verbatim>\<open>Math.random()\<close> of the colour pick (in \<open>[0, 1)\<close>) and
  \<^verbatim>\<open>new Date().toISOString()\<close>.
\<close>

record env_values =
  date_now :: string
  random_hex :: string
  random_unit :: real
  now_iso :: string

definition colors :: "string list" where
  "colors = [''bg-yellow-200/70'', ''bg-green-200/70'', ''bg-blue-200/70'',
             ''bg-purple-200/70'', ''bg-pink-200/70'']"

definition getRandomHighlightColor :: "real \<Rightarrow> string" where
  "getRandomHighlightColor r = colors ! nat \<lfloor>r * real (length colors)\<rfloor>"

subsection \<open>The comment store\<close>

text \<open>
  \<^verbatim>\<open>addInlineComment\<close>: the argument's \<^verbatim>\<open>id\<close>, \<^verbatim>\<open>_id\<close> and \<^verbatim>\<open>color\<close> are
  overwritten by the spread, so whatever the record holds there is ignored. The
  toast and the deferred scroll do not touch the state modelled here.
\<close>

definition addInlineComment :: "env_values \<Rightarrow> InlineComment \<Rightarrow> page_state \<Rightarrow> page_state" where
  "addInlineComment env commentToAdd st =
     (let tempId = ''temp-'' @ date_now env @ ''-'' @ random_hex env;
          newComment = commentToAdd\<lparr>comment_id := tempId, db_id := None,
                                    color := getRandomHighlightColor (random_unit env)\<rparr>;
          st1 = st\<lparr>inlineComments := inlineComments st @ [newComment]\<rparr>;
          st2 = (if isAIGenerated commentToAdd = Some True then st1
                 else st1\<lparr>newCommentText := [], selectedText := [], selectionRange := None\<rparr>)
      in st2\<lparr>activeCommentId := Some (comment_id newComment)\<rparr>)"

text \<open>
  \<^verbatim>\<open>handleAddCommentClick\<close>; \<open>userName\<close> is the \<^verbatim>\<open>name\<close> of the user object in
  local storage, when there is one.
\<close>

definition handleAddCommentClick :: "env_values \<Rightarrow> string option \<Rightarrow> page_state \<Rightarrow> page_state" where
  "handleAddCommentClick env userName st =
     (if trim (newCommentText st) = [] then st
      else case selectionRange st of
        None \<Rightarrow> st
      | Some r \<Rightarrow>
          addInlineComment env
            \<lparr>comment_id = [], startIndex = int (fst r), endIndex = int (snd r),
             comment_text = newCommentText st, color = [], timestamp = now_iso env,
             author = (case userName of None \<Rightarrow> ''Anonymous''
                       | Some n \<Rightarrow> if n = [] then ''Anonymous'' else n),
             isAIGenerated = Some False, db_id = None\<rparr> st)"

text \<open>
  \<^verbatim>\<open>removeInlineComment\<close> has no \<^verbatim>\<open>return\<close>: a call evaluates to
  \<^verbatim>\<open>undefined\<close>. The first component is that value.
\<close>

datatype js_value = Undefined | Boolean bool

definition removeInlineComment :: "string \<Rightarrow> page_state \<Rightarrow> js_value \<times> page_state" where
  "removeInlineComment idToRemove st =
     (Undefined,
      st\<lparr>inlineComments := filter (\<lambda>c. comment_id c \<noteq> idToRemove) (inlineComments st),
         activeCommentId := (if activeCommentId st = Some idToRemove then None
                             else activeCommentId st)\<rparr>)"

definition updateCommentText :: "string \<Rightarrow> string \<Rightarrow> page_state \<Rightarrow> page_state" where
  "updateCommentText idToUpdate newText st =
     st\<lparr>inlineComments :=
          map (\<lambda>c. if comment_id c = idToUpdate then c\<lparr>comment_text := newText\<rparr> else c)
              (inlineComments st)\<rparr>"

subsection \<open>Loading a submission\<close>

definition emptyFeedback :: OverallFeedback where
  "emptyFeedback = \<lparr>strengths = [], improvements = [], actionItems = []\<rparr>"

text \<open>\<^verbatim>\<open>defaultRubric\<close>: the names and maximal scores used when none are stored.\<close>

definition defaultRubric :: "(string \<times> real) list" where
  "defaultRubric =
     [(''Content/Understanding'', 30), (''Organization/Structure'', 25),
      (''Evidence/Support'', 25), (''Clarity/Mechanics'', 20)]"

definition initialSubScores :: "SubScore list" where
  "initialSubScores =
     map (\<lambda>item. \<lparr>sub_id = None, name = fst item, score = 0, maxScore = snd item,
                    rationale = []\<rparr>) defaultRubric"

text \<open>\<^verbatim>\<open>a || b\<close> on strings that may be missing: the first that is present and not empty.\<close>

definition orElse :: "string option \<Rightarrow> string \<Rightarrow> string" where
  "orElse a b = (case a of None \<Rightarrow> b | Some x \<Rightarrow> if x = [] then b else x)"

text \<open>\<^verbatim>\<open>fetchSubmissionDetails\<close> before its request: the grading state is cleared.\<close>

definition fetchSubmissionDetails_start :: "page_state \<Rightarrow> page_state" where
  "fetchSubmissionDetails_start st =
     st\<lparr>submissionDetails := None, inlineComments := [], overallFeedback := emptyFeedback,
        subScores := [], finalScore := Finite 0\<rparr>"

text \<open>
  \<^verbatim>\<open>fetchSubmissionDetails\<close> after a successful response \<open>data\<close>: the submission, and
  with it the text under review, is replaced.
\<close>

definition fetchSubmissionDetails_resolved :: "SubmissionDetails \<Rightarrow> page_state \<Rightarrow> page_state" where
  "fetchSubmissionDetails_resolved data st =
     (let st1 = st\<lparr>submissionDetails := Some data,
                   inlineComments :=
                     map (\<lambda>c. c\<lparr>comment_id := orElse (db_id c) (comment_id c)\<rparr>)
                         (case sd_inlineComments data of None \<Rightarrow> [] | Some cs \<Rightarrow> cs),
                   overallFeedback :=
                     (case sd_overallFeedback data of
                        None \<Rightarrow> overallFeedback st
                      | Some f \<Rightarrow>
                          if strengths f \<noteq> [] \<or> improvements f \<noteq> [] \<or> actionItems f \<noteq> []
                          then f else overallFeedback st),
                   finalScore := (case sd_score data of None \<Rightarrow> Finite 0 | Some x \<Rightarrow> Finite x)\<rparr>
      in case sd_subScores data of
           None \<Rightarrow> st1\<lparr>subScores := initialSubScores, finalScore := Finite 0\<rparr>
         | Some ss \<Rightarrow>
             if length ss > 0
             then st1\<lparr>subScores :=
                        map (\<lambda>s. s\<lparr>sub_id := (case sub_id s of None \<Rightarrow> None
                                               | Some i \<Rightarrow> if i = [] then None else Some i)\<rparr>) ss\<rparr>
             else st1\<lparr>subScores := initialSubScores, finalScore := Finite 0\<rparr>)"

subsection \<open>The AI analysis\<close>

record Suggestion =
  sg_startIndex :: int
  sg_endIndex :: int
  sg_text :: string

record AnalysisResult =
  suggestedOverallFeedback :: "OverallFeedback option"
  suggestedInlineComments :: "Suggestion list option"
  aiCheckResults :: "AICheckerResult option"

text \<open>
  \<^verbatim>\<open>handleAnalyzeWithAI\<close> up to its request: nothing is sent without content or
  without a token; otherwise the request carries the content of the submission
  the closure holds, which is what the function returns here.
\<close>

definition handleAnalyzeWithAI_request :: "string option \<Rightarrow> page_state \<Rightarrow> SubmissionDetails option" where
  "handleAnalyzeWithAI_request token st =
     (case submissionDetails st of
        None \<Rightarrow> None
      | Some d \<Rightarrow> if content d = [] then None
                  else (case token of None \<Rightarrow> None | Some t \<Rightarrow> if t = [] then None else Some d))"

text \<open>The \<^verbatim>\<open>map\<close> over the suggestions; \<open>envs i\<close> is what the \<open>i\<close>-th one draws.\<close>

definition newAIComment :: "env_values \<Rightarrow> Suggestion \<Rightarrow> InlineComment" where
  "newAIComment env suggestion =
     \<lparr>comment_id = ''temp-ai-'' @ date_now env @ ''-'' @ random_hex env,
      startIndex = sg_startIndex suggestion, endIndex = sg_endIndex suggestion,
      comment_text = sg_text suggestion, color = getRandomHighlightColor (random_unit env),
      timestamp = now_iso env, author = ''AI Assistant'',
      isAIGenerated = Some True, db_id = None\<rparr>"

definition newAIComments :: "(nat \<Rightarrow> env_values) \<Rightarrow> Suggestion list \<Rightarrow> InlineComment list" where
  "newAIComments envs suggestions =
     map (\<lambda>(i, suggestion). newAIComment (envs i) suggestion) (enumerate 0 suggestions)"

text \<open>
  \<^verbatim>\<open>handleAnalyzeWithAI\<close> after a successful response. \<open>captured\<close> is the
  \<^verbatim>\<open>submissionDetails\<close> of the closure that sent the request; \<open>st\<close> is the state
  at the time the response arrives, which the functional updates work on.
\<close>

definition handleAnalyzeWithAI_resolved ::
    "(nat \<Rightarrow> env_values) \<Rightarrow> SubmissionDetails \<Rightarrow> AnalysisResult \<Rightarrow> page_state \<Rightarrow> page_state" where
  "handleAnalyzeWithAI_resolved envs captured analysisResult st =
     (let st1 = (case suggestedOverallFeedback analysisResult of
                   None \<Rightarrow> st
                 | Some f \<Rightarrow>
                     st\<lparr>overallFeedback :=
                          \<lparr>strengths = orElse (Some (strengths (overallFeedback st))) (strengths f),
                           improvements = orElse (Some (improvements (overallFeedback st))) (improvements f),
                           actionItems = orElse (Some (actionItems (overallFeedback st))) (actionItems f)\<rparr>\<rparr>);
          st2 = (case suggestedInlineComments analysisResult of
                   None \<Rightarrow> st1
                 | Some suggestions \<Rightarrow>
                     if length suggestions > 0
                     then st1\<lparr>inlineComments := inlineComments st1 @ newAIComments envs suggestions\<rparr>
                     else st1)
      in if aiCheckResults analysisResult \<noteq> None \<and> aiCheckerResults captured = None
         then st2\<lparr>submissionDetails :=
                    map_option (\<lambda>prev. prev\<lparr>aiCheckerResults := aiCheckResults analysisResult\<rparr>)
                               (submissionDetails st2)\<rparr>
         else st2)"

subsection \<open>The text selection\<close>

text \<open>
  What \<^verbatim>\<open>handleTextSelection\<close> asks the DOM: the number of ranges of the selection,
  whether its anchor lies inside the content element, \<^verbatim>\<open>selection.toString()\<close>,
  and the string of the range that runs from the start of the content element to
  the start of the selection (\<^verbatim>\<open>preSelectionRange.toString()\<close>), that is, the
  rendered characters before the selection.
\<close>

record dom_selection =
  rangeCount :: nat
  anchorInContent :: bool
  selectionString :: string
  preSelectionString :: string

definition clearSelection :: "page_state \<Rightarrow> page_state" where
  "clearSelection st = st\<lparr>selectedText := [], selectionRange := None, newCommentText := []\<rparr>"

definition handleTextSelection :: "dom_selection option \<Rightarrow> page_state \<Rightarrow> page_state" where
  "handleTextSelection selection st =
     (if \<not> isCommentMode st then st
      else case selection of
        None \<Rightarrow> clearSelection st
      | Some sel \<Rightarrow>
          if rangeCount sel = 0 \<or> \<not> anchorInContent sel then clearSelection st
          else let text = trim (selectionString sel)
               in if text = [] then clearSelection st
                  else let start = length (preSelectionString sel);
                           end = start + length text
                       in st\<lparr>selectedText := text, selectionRange := Some (start, end),
                             newCommentText := [], activeCommentId := None\<rparr>)"

subsection \<open>Rubric scores\<close>

text \<open>
  The input of a score update; \<open>toNumber\<close> below is the platform's
  \<^verbatim>\<open>Number(...)\<close> on strings.
\<close>

datatype score_input = StringInput string | NumberInput jsnum

datatype js_error = TypeError

text \<open>
  \<^verbatim>\<open>Math.max(0, Math.min(isNaN(scoreValue) ? 0 : scoreValue, maxScore))\<close> for a
  finite \<^verbatim>\<open>maxScore\<close>, by the cases of \<^verbatim>\<open>scoreValue\<close>.
\<close>

fun clampedScore :: "jsnum \<Rightarrow> real \<Rightarrow> real" where
  "clampedScore NaN m = max 0 (min 0 m)"
| "clampedScore NegInfinity m = 0"
| "clampedScore (Finite x) m = max 0 (min x m)"
| "clampedScore Infinity m = max 0 m"

text \<open>
  The arithmetic of doubles: \<^verbatim>\<open>+\<close>, \<^verbatim>\<open>/\<close> and \<^verbatim>\<open>*\<close> as the platform computes
  them, rounding and with its answers for a zero divisor (an infinity, or not a
  number). Nothing is assumed about them.
\<close>

record js_arith =
  js_plus :: "jsnum \<Rightarrow> jsnum \<Rightarrow> jsnum"
  js_divide :: "jsnum \<Rightarrow> jsnum \<Rightarrow> jsnum"
  js_times :: "jsnum \<Rightarrow> jsnum \<Rightarrow> jsnum"

text \<open>The comparison \<^verbatim>\<open>x > 0\<close>, which does not round.\<close>

fun jsPositive :: "jsnum \<Rightarrow> bool" where
  "jsPositive NaN = False"
| "jsPositive NegInfinity = False"
| "jsPositive (Finite x) = (0 < x)"
| "jsPositive Infinity = True"

text \<open>\<^verbatim>\<open>Math.round\<close>: the nearest integer, a tie going up; exact on doubles.\<close>

fun mathRound :: "jsnum \<Rightarrow> jsnum" where
  "mathRound NaN = NaN"
| "mathRound NegInfinity = NegInfinity"
| "mathRound (Finite x) = Finite (real_of_int \<lfloor>x + 1 / 2\<rfloor>)"
| "mathRound Infinity = Infinity"

text \<open>
  The two \<^verbatim>\<open>reduce\<close> calls of \<^verbatim>\<open>recalculateFinalScore\<close>, \<^verbatim>\<open>total\<close> and
  \<^verbatim>\<open>max\<close> (\<^verbatim>\<open>item.score || 0\<close> is \<^verbatim>\<open>item.score\<close> for a finite score).
\<close>

definition scoreTotal :: "js_arith \<Rightarrow> SubScore list \<Rightarrow> jsnum" where
  "scoreTotal ar currentSubScores =
     foldl (\<lambda>sum item. js_plus ar sum (Finite (score item))) (Finite 0) currentSubScores"

definition maxTotal :: "js_arith \<Rightarrow> SubScore list \<Rightarrow> jsnum" where
  "maxTotal ar currentSubScores =
     foldl (\<lambda>sum item. js_plus ar sum (Finite (maxScore item))) (Finite 0) currentSubScores"

definition recalculateFinalScore :: "js_arith \<Rightarrow> SubScore list \<Rightarrow> page_state \<Rightarrow> page_state" where
  "recalculateFinalScore ar currentSubScores st =
     (let total = scoreTotal ar currentSubScores;
          mx = maxTotal ar currentSubScores;
          newFinalScore = (if jsPositive mx
                           then mathRound (js_times ar (js_divide ar total mx) (Finite 100))
                           else Finite 0)
      in st\<lparr>finalScore := newFinalScore\<rparr>)"

text \<open>
  \<^verbatim>\<open>updateSubScore\<close>. Reading \<^verbatim>\<open>.maxScore\<close> of an element that is not there throws
  a \<^verbatim>\<open>TypeError\<close> before anything is stored.
\<close>

text \<open>\<^verbatim>\<open>newScore === '' ? 0 : Number(newScore)\<close>.\<close>

definition scoreValue :: "(string \<Rightarrow> jsnum) \<Rightarrow> score_input \<Rightarrow> jsnum" where
  "scoreValue toNumber newScore =
     (case newScore of
        StringInput s \<Rightarrow> if s = [] then Finite 0 else toNumber s
      | NumberInput n \<Rightarrow> n)"

definition updateSubScore ::
    "js_arith \<Rightarrow> (string \<Rightarrow> jsnum) \<Rightarrow> int \<Rightarrow> score_input \<Rightarrow> page_state \<Rightarrow>
       js_error + page_state" where
  "updateSubScore ar toNumber index newScore st =
     (if index < 0 \<or> int (length (subScores st)) \<le> index then Inl TypeError
      else let i = nat index;
               item = subScores st ! i;
               clamped = clampedScore (scoreValue toNumber newScore) (maxScore item);
               updatedScores = (subScores st)[i := item\<lparr>score := clamped\<rparr>]
           in Inr (recalculateFinalScore ar updatedScores (st\<lparr>subScores := updatedScores\<rparr>)))"

subsection \<open>Properties under study and sample data\<close>

text \<open>
  Comments laid out one after the other inside a text of length \<open>n\<close>, none starting
  before the previous one ends: the annotation sets without overlap.
\<close>

fun inOrderFrom :: "int \<Rightarrow> nat \<Rightarrow> InlineComment list \<Rightarrow> bool" where
  "inOrderFrom lastIndex n [] = True"
| "inOrderFrom lastIndex n (c # cs) =
     (lastIndex \<le> startIndex c \<and> startIndex c \<le> endIndex c \<and> endIndex c \<le> int n \<and>
      inOrderFrom (endIndex c) n cs)"

text \<open>
  The order the specification gives for display: by start offset, ties by creation
  time (an ISO timestamp, so the order of the strings is the order in time).
\<close>

definition startThenCreated :: "InlineComment \<Rightarrow> InlineComment \<Rightarrow> bool" where
  "startThenCreated a b =
     (startIndex a < startIndex b \<or> (startIndex a = startIndex b \<and> timestamp a \<le> timestamp b))"

definition sampleComment :: "string \<Rightarrow> int \<Rightarrow> int \<Rightarrow> string \<Rightarrow> InlineComment" where
  "sampleComment i a b t =
     \<lparr>comment_id = i, startIndex = a, endIndex = b, comment_text = ''note'',
      color = ''bg-yellow-200/70'', timestamp = t, author = ''Teacher'',
      isAIGenerated = Some False, db_id = None\<rparr>"

definition sampleSubmission :: "string \<Rightarrow> SubmissionDetails" where
  "sampleSubmission t =
     \<lparr>sd_id = ''s1'', content = t, sd_score = None, sd_subScores = None,
      sd_overallFeedback = None, sd_inlineComments = None, aiCheckerResults = None\<rparr>"

definition sampleState :: "string \<Rightarrow> InlineComment list \<Rightarrow> page_state" where
  "sampleState t cs =
     \<lparr>submissionDetails = Some (sampleSubmission t), inlineComments = cs,
      overallFeedback = emptyFeedback, subScores = initialSubScores, finalScore = Finite 0,
      newCommentText = [], selectedText = [], selectionRange = None,
      activeCommentId = None, isCommentMode = True\<rparr>"

definition sampleEnv :: env_values where
  "sampleEnv = \<lparr>date_now = ''1700000000000'', random_hex = ''8f3a'', random_unit = 0,
                now_iso = ''2024-03-01T10:00:00.000Z''\<rparr>"

definition foxText :: string where
  "foxText = ''The quick brown fox''"

definition annotationA :: InlineComment where
  "annotationA = sampleComment ''a'' 4 15 ''2024-01-01T09:00:00.000Z''"

definition annotationB :: InlineComment where
  "annotationB = sampleComment ''b'' 10 19 ''2024-01-01T09:05:00.000Z''"

definition sampleResult :: AnalysisResult where
  "sampleResult =
     \<lparr>suggestedOverallFeedback = None,
      suggestedInlineComments =
        Some [\<lparr>sg_startIndex = 0, sg_endIndex = 5, sg_text = ''Cite this''\<rparr>,
              \<lparr>sg_startIndex = 8, sg_endIndex = 3, sg_text = ''Unclear''\<rparr>],
      aiCheckResults = None\<rparr>"

definition sampleToNumber :: "string \<Rightarrow> jsnum" where
  "sampleToNumber s =
     (if s = ''45'' then Finite 45 else if s = ''12.5'' then Finite (25 / 2) else NaN)"

text \<open>
  A sample arithmetic: exact on finite values, not a number elsewhere and for a
  zero divisor.
\<close>

fun samplePlus :: "jsnum \<Rightarrow> jsnum \<Rightarrow> jsnum" where
  "samplePlus (Finite x) (Finite y) = Finite (x + y)"
| "samplePlus a b = NaN"

fun sampleDivide :: "jsnum \<Rightarrow> jsnum \<Rightarrow> jsnum" where
  "sampleDivide (Finite x) (Finite y) = (if y = 0 then NaN else Finite (x / y))"
| "sampleDivide a b = NaN"

fun sampleTimes :: "jsnum \<Rightarrow> jsnum \<Rightarrow> jsnum" where
  "sampleTimes (Finite x) (Finite y) = Finite (x * y)"
| "sampleTimes a b = NaN"

definition sampleArith :: js_arith where
  "sampleArith = \<lparr>js_plus = samplePlus, js_divide = sampleDivide, js_times = sampleTimes\<rparr>"

definition zeroRubric :: page_state where
  "zeroRubric =
     (sampleState ''Essay'' [])\<lparr>subScores :=
        [\<lparr>sub_id = None, name = ''Bonus'', score = 0, maxScore = 0, rationale = []\<rparr>]\<rparr>"

section \<open>The renderer\<close>

subsection \<open>Comments that do not overlap\<close>

text \<open>
  Inside the text \<^verbatim>\<open>substring\<close> is the plain slice, and a slice that starts where a
  prefix ends extends the prefix.
\<close>

lemma substring_in_range:
  assumes "0 \<le> a" "a \<le> b" "b \<le> int (length s)"
  shows "substring s a b = take (nat b - nat a) (drop (nat a) s)"
  using assms by (simp add: substring_def clampIndex_def Let_def min_def max_def nat_le_eq_zle)

lemma take_append_substring:
  assumes "0 \<le> a" "a \<le> b" "b \<le> int (length s)"
  shows "take (nat a) s @ substring s a b = take (nat b) s"
proof -
  have "take (nat b) s = take (nat a + (nat b - nat a)) s"
    using assms by simp
  also have "\<dots> = take (nat a) s @ take (nat b - nat a) (drop (nat a) s)"
    by (rule take_add)
  finally show ?thesis using assms by (simp add: substring_in_range)
qed

text \<open>
  The invariant of the walk: the segments pushed so far spell the text up to
  \<^verbatim>\<open>lastIndex\<close>.
\<close>

lemma walk_invariant:
  assumes "inOrderFrom lastIndex (length s) cs" "0 \<le> lastIndex" "lastIndex \<le> int (length s)"
    "concat (map segment_content segs) = take (nat lastIndex) s"
  shows "concat (map segment_content (fst (foldl (pushComment s) (segs, lastIndex) cs))) =
           take (nat (snd (foldl (pushComment s) (segs, lastIndex) cs))) s \<and>
         0 \<le> snd (foldl (pushComment s) (segs, lastIndex) cs) \<and>
         snd (foldl (pushComment s) (segs, lastIndex) cs) \<le> int (length s)"
  using assms
proof (induction cs arbitrary: segs lastIndex)
  case Nil
  then show ?case by simp
next
  case (Cons c cs)
  let ?acc = "pushComment s (segs, lastIndex) c"
  from Cons.prems have ord: "lastIndex \<le> startIndex c" "startIndex c \<le> endIndex c"
    "endIndex c \<le> int (length s)" "inOrderFrom (endIndex c) (length s) cs"
    by simp_all
  have snd_acc: "snd ?acc = endIndex c"
    by (simp add: pushComment_def Let_def)
  have gap: "take (nat lastIndex) s @ substring s lastIndex (startIndex c) = take (nat (startIndex c)) s"
    using Cons.prems ord by (intro take_append_substring) simp_all
  have hl: "take (nat (startIndex c)) s @ substring s (startIndex c) (endIndex c) = take (nat (endIndex c)) s"
    using Cons.prems ord by (intro take_append_substring) simp_all
  have same: "startIndex c = lastIndex" if "\<not> lastIndex < startIndex c"
    using that ord by simp
  have fst_acc: "concat (map segment_content (fst ?acc)) = take (nat (endIndex c)) s"
    using Cons.prems(4) gap hl same by (auto simp add: pushComment_def Let_def)
  have "foldl (pushComment s) (segs, lastIndex) (c # cs) = foldl (pushComment s) (fst ?acc, endIndex c) cs"
    using snd_acc by (metis foldl_Cons prod.collapse)
  moreover have "0 \<le> endIndex c" using Cons.prems ord by linarith
  ultimately show ?case
    using Cons.IH[OF ord(4) _ ord(3) fst_acc] by simp
qed

text \<open>
  For comments that, in display order, lie one after the other inside the text, the
  segment values concatenate to the text.
\<close>

lemma render_roundtrip_in_order:
  assumes "submissionDetails st = Some d"
    and "inOrderFrom 0 (length (content d)) (sortByStartIndex (inlineComments st))"
  shows "renderedText st = content d"
proof (cases "content d = []")
  case True
  then show ?thesis using assms(1) by (simp add: renderedText_def renderHighlightedContent_def)
next
  case False
  let ?w = "foldl (pushComment (content d)) ([], 0) (sortByStartIndex (inlineComments st))"
  have inv: "concat (map segment_content (fst ?w)) = take (nat (snd ?w)) (content d)"
    "0 \<le> snd ?w" "snd ?w \<le> int (length (content d))"
    using walk_invariant[OF assms(2), of "[]"] by simp_all
  have tail: "take (nat (snd ?w)) (content d) @ substringFrom (content d) (snd ?w) = content d"
    using inv(2,3) take_append_substring[of "snd ?w" "int (length (content d))" "content d"]
    by (simp add: substringFrom_def)
  show ?thesis
  proof (cases "snd ?w < int (length (content d))")
    case True
    then show ?thesis
      using assms(1) False inv(1) tail
      by (simp add: renderedText_def renderHighlightedContent_def walkComments_def Let_def)
  next
    case False
    then have "nat (snd ?w) = length (content d)" using inv(2,3) by simp
    then show ?thesis
      using assms(1) \<open>content d \<noteq> []\<close> False inv(1)
      by (simp add: renderedText_def renderHighlightedContent_def walkComments_def Let_def)
  qed
qed

text \<open>Two comments with a gap between them, stored out of order.\<close>

lemma render_roundtrip_in_order_example:
  "renderedText (sampleState foxText [sampleComment ''d'' 10 15 ''2024-01-02T09:00:00.000Z'',
                                      sampleComment ''c'' 4 9 ''2024-01-03T09:00:00.000Z'']) = foxText"
proof -
  let ?st = "sampleState foxText [sampleComment ''d'' 10 15 ''2024-01-02T09:00:00.000Z'',
                                  sampleComment ''c'' 4 9 ''2024-01-03T09:00:00.000Z'']"
  have "inOrderFrom 0 (length (content (sampleSubmission foxText))) (sortByStartIndex (inlineComments ?st))"
    by (simp add: sampleState_def sampleSubmission_def sampleComment_def foxText_def sortByStartIndex_def)
  then have "renderedText ?st = content (sampleSubmission foxText)"
    by (intro render_roundtrip_in_order) (simp add: sampleState_def)
  then show ?thesis by (simp add: sampleSubmission_def)
qed

subsection \<open>Comments that overlap\<close>

text \<open>
  C1. The segment values should concatenate to the canonical text for every set of
  valid ranges, overlapping ones included. The walk pushes the whole range of a
  comment that starts before \<^verbatim>\<open>lastIndex\<close>, so the overlapped characters are
  rendered twice: with A = [4, 15) and B = [10, 19) on the 19 characters of
  \<open>foxText\<close> the rendered text has \<open>brown\<close> twice and is not the text.
\<close>

theorem render_overlap_duplicates:
  "renderedText (sampleState foxText [annotationA, annotationB]) = ''The quick brownbrown fox'' \<and>
   renderedText (sampleState foxText [annotationA, annotationB]) \<noteq> foxText"
  by (simp add: sampleState_def sampleSubmission_def sampleComment_def foxText_def annotationA_def annotationB_def
      renderedText_def renderHighlightedContent_def walkComments_def
      sortByStartIndex_def pushComment_def substring_def substringFrom_def clampIndex_def Let_def)

text \<open>
  C2. On the same input the specification expects the segments text \<open>The \<close>,
  highlight (A) \<open>quick brown\<close>, highlight (B) \<open> fox\<close>, the highlight of B clipped to
  start at the cursor. The renderer emits the highlight of B over its whole range.
\<close>

theorem render_overlap_example:
  "renderHighlightedContent (sampleState foxText [annotationA, annotationB]) =
     Some [TextSeg ''The '', HighlightSeg ''quick brown'' annotationA,
           HighlightSeg ''brown fox'' annotationB]"
  by (simp add: sampleState_def sampleSubmission_def sampleComment_def foxText_def annotationA_def annotationB_def
      renderedText_def renderHighlightedContent_def walkComments_def
      sortByStartIndex_def pushComment_def substring_def substringFrom_def clampIndex_def Let_def)

section \<open>Display order\<close>

text \<open>
  C6, as the code has it. The comments are displayed in the stable order of their
  start index: the start indices ascend, no comment is lost or invented, and comments
  with the same start index keep the order they have in the store. The renderer walks
  the comments in exactly this order. The creation time is not consulted.
\<close>

theorem display_order_stable_by_start:
  "sorted (map startIndex (sortByStartIndex cs)) \<and>
   mset (sortByStartIndex cs) = mset cs \<and>
   filter (\<lambda>c. startIndex c = k) (sortByStartIndex cs) = filter (\<lambda>c. startIndex c = k) cs \<and>
   walkComments text cs = foldl (pushComment text) ([], 0) (sortByStartIndex cs)"
  by (simp add: sortByStartIndex_def sort_key_stable walkComments_def)

text \<open>
  C6 as stated asks for ties in creation order. Two comments that start at the same
  index and are stored later one first are displayed in that order.
\<close>

theorem display_order_ties_counterexample:
  "sortByStartIndex [sampleComment ''late'' 0 5 ''2024-02-01T00:00:00.000Z'',
                     sampleComment ''early'' 0 3 ''2024-01-01T00:00:00.000Z''] =
     [sampleComment ''late'' 0 5 ''2024-02-01T00:00:00.000Z'',
      sampleComment ''early'' 0 3 ''2024-01-01T00:00:00.000Z''] \<and>
   \<not> sorted_wrt startThenCreated
       (sortByStartIndex [sampleComment ''late'' 0 5 ''2024-02-01T00:00:00.000Z'',
                          sampleComment ''early'' 0 3 ''2024-01-01T00:00:00.000Z''])"
  by (simp add: sortByStartIndex_def startThenCreated_def sampleComment_def)

section \<open>The comment store\<close>

text \<open>
  C3, as the code has it. Adding performs no range check: whatever the range, the
  store grows by exactly one record that carries the given start and end index.
  \<^verbatim>\<open>handleAddCommentClick\<close> leaves the store alone only when the comment body is
  blank or no selection range is set.
\<close>

theorem add_appends_any_range:
  "inlineComments (addInlineComment env commentToAdd st) =
     inlineComments st @
       [commentToAdd\<lparr>comment_id := ''temp-'' @ date_now env @ ''-'' @ random_hex env, db_id := None,
                     color := getRandomHighlightColor (random_unit env)\<rparr>] \<and>
   startIndex (last (inlineComments (addInlineComment env commentToAdd st))) = startIndex commentToAdd \<and>
   endIndex (last (inlineComments (addInlineComment env commentToAdd st))) = endIndex commentToAdd \<and>
   (if trim (newCommentText st) = [] \<or> selectionRange st = None
    then handleAddCommentClick env userName st = st
    else map (\<lambda>c. (startIndex c, endIndex c)) (inlineComments (handleAddCommentClick env userName st)) =
           map (\<lambda>c. (startIndex c, endIndex c)) (inlineComments st) @
             [(int (fst (the (selectionRange st))), int (snd (the (selectionRange st))))])"
  by (auto simp add: addInlineComment_def handleAddCommentClick_def Let_def split: option.splits)

text \<open>
  C3 as stated asks that a range with start \<open>\<ge>\<close> end, or with an end beyond the text,
  be rejected and the store left unchanged. The range (8, 3), and the range (3, 9) on
  a text of five characters, are both stored.
\<close>

theorem add_invalid_range_counterexample:
  "inlineComments (addInlineComment sampleEnv (sampleComment [] 8 3 ''2024-03-01T10:00:00.000Z'')
      (sampleState ''Hello'' [])) \<noteq> inlineComments (sampleState ''Hello'' []) \<and>
   inlineComments (handleAddCommentClick sampleEnv (Some ''Teacher'')
      ((sampleState ''Hello'' [])\<lparr>newCommentText := ''Good'', selectionRange := Some (3, 9)\<rparr>))
     \<noteq> inlineComments (sampleState ''Hello'' [])"
  by (simp add: addInlineComment_def handleAddCommentClick_def sampleState_def sampleComment_def
      Let_def trim_def isWhiteSpace_def)

text \<open>
  C8. \<^verbatim>\<open>updateCommentText\<close> keeps the number and the order of the comments; a comment
  with the given id changes in its text only (id, start and end index, author,
  timestamp, AI flag, colour and database id stay), every other comment stays as it
  is, and when no comment has the id the whole state is unchanged.
\<close>

theorem update_changes_body_only:
  "length (inlineComments (updateCommentText idToUpdate newText st)) = length (inlineComments st) \<and>
   (\<forall>k < length (inlineComments st).
      (comment_id (inlineComments st ! k) = idToUpdate \<longrightarrow>
         inlineComments (updateCommentText idToUpdate newText st) ! k =
           (inlineComments st ! k)\<lparr>comment_text := newText\<rparr>) \<and>
      (comment_id (inlineComments st ! k) \<noteq> idToUpdate \<longrightarrow>
         inlineComments (updateCommentText idToUpdate newText st) ! k = inlineComments st ! k) \<and>
      comment_id (inlineComments (updateCommentText idToUpdate newText st) ! k) = comment_id (inlineComments st ! k) \<and>
      startIndex (inlineComments (updateCommentText idToUpdate newText st) ! k) = startIndex (inlineComments st ! k) \<and>
      endIndex (inlineComments (updateCommentText idToUpdate newText st) ! k) = endIndex (inlineComments st ! k) \<and>
      author (inlineComments (updateCommentText idToUpdate newText st) ! k) = author (inlineComments st ! k) \<and>
      timestamp (inlineComments (updateCommentText idToUpdate newText st) ! k) = timestamp (inlineComments st ! k) \<and>
      isAIGenerated (inlineComments (updateCommentText idToUpdate newText st) ! k) = isAIGenerated (inlineComments st ! k) \<and>
      color (inlineComments (updateCommentText idToUpdate newText st) ! k) = color (inlineComments st ! k) \<and>
      db_id (inlineComments (updateCommentText idToUpdate newText st) ! k) = db_id (inlineComments st ! k)) \<and>
   (idToUpdate \<notin> comment_id ` set (inlineComments st) \<longrightarrow>
      updateCommentText idToUpdate newText st = st)"
proof -
  have absent: "updateCommentText idToUpdate newText st = st"
    if "idToUpdate \<notin> comment_id ` set (inlineComments st)"
  proof -
    have "map (\<lambda>c. if comment_id c = idToUpdate then c\<lparr>comment_text := newText\<rparr> else c)
            (inlineComments st) = inlineComments st"
      using that by (intro map_idI) auto
    then show ?thesis by (simp add: updateCommentText_def)
  qed
  show ?thesis using absent by (simp add: updateCommentText_def)
qed

text \<open>Updating comment \<open>a\<close> of two, and updating an id that is not there.\<close>

theorem update_changes_body_only_witness:
  "length (inlineComments (updateCommentText ''a'' ''Revised'' (sampleState foxText [annotationA, annotationB]))) = 2 \<and>
   inlineComments (updateCommentText ''a'' ''Revised'' (sampleState foxText [annotationA, annotationB])) ! 0 =
     annotationA\<lparr>comment_text := ''Revised''\<rparr> \<and>
   inlineComments (updateCommentText ''a'' ''Revised'' (sampleState foxText [annotationA, annotationB])) ! 1 =
     annotationB \<and>
   updateCommentText ''missing'' ''Revised'' (sampleState foxText [annotationA, annotationB]) =
     sampleState foxText [annotationA, annotationB]"
proof -
  let ?st = "sampleState foxText [annotationA, annotationB]"
  have ids: "comment_id annotationA = ''a''" "comment_id annotationB = ''b''"
    by (simp_all add: annotationA_def annotationB_def sampleComment_def)
  have cs: "inlineComments ?st = [annotationA, annotationB]" by (simp add: sampleState_def)
  have miss: "''missing'' \<notin> comment_id ` set (inlineComments ?st)" by (simp add: cs ids)
  have "length (inlineComments (updateCommentText ''a'' ''Revised'' ?st)) = 2"
    and "inlineComments (updateCommentText ''a'' ''Revised'' ?st) ! 0 = annotationA\<lparr>comment_text := ''Revised''\<rparr>"
    and "inlineComments (updateCommentText ''a'' ''Revised'' ?st) ! 1 = annotationB"
    using update_changes_body_only[of "''a''" "''Revised''" ?st] by (simp_all add: cs ids)
  moreover have "updateCommentText ''missing'' ''Revised'' ?st = ?st"
    using update_changes_body_only[of "''missing''" "''Revised''" ?st] miss by blast
  ultimately show ?thesis by simp
qed

text \<open>
  C9, as the code has it. Removing an id that no comment has leaves the list of
  comments as it is; the call yields no value (\<^verbatim>\<open>undefined\<close>).
\<close>

theorem remove_absent_noop:
  assumes "idToRemove \<notin> comment_id ` set (inlineComments st)"
  shows "fst (removeInlineComment idToRemove st) = Undefined \<and>
         inlineComments (snd (removeInlineComment idToRemove st)) = inlineComments st"
proof -
  have "filter (\<lambda>c. comment_id c \<noteq> idToRemove) (inlineComments st) = inlineComments st"
    using assms by (intro filter_True) auto
  then show ?thesis by (simp add: removeInlineComment_def)
qed

text \<open>Removing \<open>nonexistent-id\<close> from a store of two comments.\<close>

theorem remove_absent_noop_witness:
  "fst (removeInlineComment ''nonexistent-id'' (sampleState foxText [annotationA, annotationB])) = Undefined \<and>
   inlineComments (snd (removeInlineComment ''nonexistent-id'' (sampleState foxText [annotationA, annotationB]))) =
     [annotationA, annotationB]"
proof -
  have "''nonexistent-id'' \<notin> comment_id ` set (inlineComments (sampleState foxText [annotationA, annotationB]))"
    by (simp add: sampleState_def annotationA_def annotationB_def sampleComment_def)
  from remove_absent_noop[OF this] show ?thesis by (simp add: sampleState_def)
qed

text \<open>C9 as stated asks that the call return \<open>false\<close>.\<close>

theorem remove_returns_no_value_counterexample:
  "fst (removeInlineComment ''nonexistent-id'' (sampleState foxText [annotationA, annotationB]))
     \<noteq> Boolean False"
  by (simp add: removeInlineComment_def)

section \<open>The AI analysis\<close>

text \<open>
  Whatever else a response carries, its effect on the comments is to append one new
  comment per suggestion to the comments of the state it arrives in.
\<close>

lemma analyze_store:
  "inlineComments (handleAnalyzeWithAI_resolved envs captured r st) =
     inlineComments st @ newAIComments envs (case suggestedInlineComments r of None \<Rightarrow> [] | Some l \<Rightarrow> l)"
  by (cases "suggestedInlineComments r"; cases "suggestedOverallFeedback r")
     (simp_all add: handleAnalyzeWithAI_resolved_def Let_def newAIComments_def)

lemma newAIComments_ranges_from:
  "map (\<lambda>c. (startIndex c, endIndex c))
       (map (\<lambda>(i, suggestion). newAIComment (envs i) suggestion) (enumerate n suggestions)) =
     map (\<lambda>s. (sg_startIndex s, sg_endIndex s)) suggestions"
  by (induction suggestions arbitrary: n) (simp_all add: newAIComment_def)

lemma newAIComments_ranges:
  "map (\<lambda>c. (startIndex c, endIndex c)) (newAIComments envs suggestions) =
     map (\<lambda>s. (sg_startIndex s, sg_endIndex s)) suggestions"
  unfolding newAIComments_def by (rule newAIComments_ranges_from)

text \<open>
  C4, as the code has it. A request is sent for the text of one submission, the
  submission is then replaced by another with a different text, and the response
  arrives: it is not discarded. One comment per suggestion is appended to the comments
  of the new submission; nothing compares the text the request was made for with the
  current one.
\<close>

theorem stale_response_applied:
  assumes "handleAnalyzeWithAI_request token st = Some captured"
    and "st1 = fetchSubmissionDetails_resolved data (fetchSubmissionDetails_start st)"
    and "content data \<noteq> content captured"
  shows "inlineComments (handleAnalyzeWithAI_resolved envs captured r st1) =
           inlineComments st1 @
             newAIComments envs (case suggestedInlineComments r of None \<Rightarrow> [] | Some l \<Rightarrow> l)"
  by (rule analyze_store)

text \<open>A request for an old essay, answered with two suggestions after a new one is loaded.\<close>

theorem stale_response_applied_witness:
  "inlineComments (handleAnalyzeWithAI_resolved (\<lambda>i. sampleEnv) (sampleSubmission ''An old essay text'')
        sampleResult
        (fetchSubmissionDetails_resolved (sampleSubmission ''New'')
          (fetchSubmissionDetails_start (sampleState ''An old essay text'' [])))) =
     [newAIComment sampleEnv \<lparr>sg_startIndex = 0, sg_endIndex = 5, sg_text = ''Cite this''\<rparr>,
      newAIComment sampleEnv \<lparr>sg_startIndex = 8, sg_endIndex = 3, sg_text = ''Unclear''\<rparr>]"
proof -
  have req: "handleAnalyzeWithAI_request (Some ''token'') (sampleState ''An old essay text'' []) =
     Some (sampleSubmission ''An old essay text'')"
    by (simp add: handleAnalyzeWithAI_request_def sampleState_def sampleSubmission_def)
  have diff: "content (sampleSubmission ''New'') \<noteq> content (sampleSubmission ''An old essay text'')"
    by (simp add: sampleSubmission_def)
  show ?thesis
    using stale_response_applied[OF req refl diff, of "\<lambda>i. sampleEnv" sampleResult]
    by (simp add: fetchSubmissionDetails_resolved_def fetchSubmissionDetails_start_def
        sampleState_def sampleSubmission_def sampleResult_def newAIComments_def Let_def)
qed

text \<open>
  C4 as stated asks that the store be unmodified by the late response. In the run
  above the request is sent, the text is replaced, and the response changes the
  comments of the new submission.
\<close>

theorem stale_response_counterexample:
  "handleAnalyzeWithAI_request (Some ''token'') (sampleState ''An old essay text'' []) =
     Some (sampleSubmission ''An old essay text'') \<and>
   submissionDetails (fetchSubmissionDetails_resolved (sampleSubmission ''New'')
        (fetchSubmissionDetails_start (sampleState ''An old essay text'' []))) =
     Some (sampleSubmission ''New'') \<and>
   inlineComments (handleAnalyzeWithAI_resolved (\<lambda>i. sampleEnv) (sampleSubmission ''An old essay text'')
        sampleResult
        (fetchSubmissionDetails_resolved (sampleSubmission ''New'')
          (fetchSubmissionDetails_start (sampleState ''An old essay text'' []))))
     \<noteq> inlineComments (fetchSubmissionDetails_resolved (sampleSubmission ''New'')
          (fetchSubmissionDetails_start (sampleState ''An old essay text'' [])))"
  by (simp add: analyze_store handleAnalyzeWithAI_request_def fetchSubmissionDetails_resolved_def
      fetchSubmissionDetails_start_def sampleState_def sampleSubmission_def sampleResult_def
      newAIComments_def Let_def)

text \<open>
  C5, as the code has it. The suggestions of a response are not validated: every one
  of them becomes a comment with the start and end index it came with, in the order
  of the response, and the store grows by the number of suggestions.
\<close>

theorem bulk_adds_every_item:
  "suggestedInlineComments r = Some suggestions \<Longrightarrow>
   inlineComments (handleAnalyzeWithAI_resolved envs captured r st) =
       inlineComments st @ newAIComments envs suggestions \<and>
   map (\<lambda>c. (startIndex c, endIndex c)) (newAIComments envs suggestions) =
       map (\<lambda>s. (sg_startIndex s, sg_endIndex s)) suggestions \<and>
   length (inlineComments (handleAnalyzeWithAI_resolved envs captured r st)) =
       length (inlineComments st) + length suggestions"
  by (simp add: analyze_store newAIComments_ranges) (simp add: newAIComments_def)

text \<open>The response with the ranges (0, 5) and (8, 3), on an empty store.\<close>

theorem bulk_adds_every_item_witness:
  "inlineComments (handleAnalyzeWithAI_resolved (\<lambda>i. sampleEnv) (sampleSubmission ''Hello world'')
       sampleResult (sampleState ''Hello world'' [])) =
     [newAIComment sampleEnv \<lparr>sg_startIndex = 0, sg_endIndex = 5, sg_text = ''Cite this''\<rparr>,
      newAIComment sampleEnv \<lparr>sg_startIndex = 8, sg_endIndex = 3, sg_text = ''Unclear''\<rparr>]"
proof -
  have "suggestedInlineComments sampleResult =
          Some [\<lparr>sg_startIndex = 0, sg_endIndex = 5, sg_text = ''Cite this''\<rparr>,
                \<lparr>sg_startIndex = 8, sg_endIndex = 3, sg_text = ''Unclear''\<rparr>]"
    by (simp add: sampleResult_def)
  from bulk_adds_every_item[OF this, of "\<lambda>i. sampleEnv" "sampleSubmission ''Hello world''"
      "sampleState ''Hello world'' []"]
  show ?thesis by (simp add: sampleState_def newAIComments_def)
qed

text \<open>
  C5 as stated asks that the batch with the ranges (0, 5) and (8, 3) add exactly one
  comment. It adds two, the second with the range (8, 3).
\<close>

theorem bulk_invalid_kept_counterexample:
  "length (inlineComments (handleAnalyzeWithAI_resolved (\<lambda>i. sampleEnv) (sampleSubmission ''Hello world'')
       sampleResult (sampleState ''Hello world'' []))) =
     length (inlineComments (sampleState ''Hello world'' [])) + 2 \<and>
   map (\<lambda>c. (startIndex c, endIndex c))
     (inlineComments (handleAnalyzeWithAI_resolved (\<lambda>i. sampleEnv) (sampleSubmission ''Hello world'')
       sampleResult (sampleState ''Hello world'' []))) = [(0, 5), (8, 3)]"
  by (simp add: analyze_store sampleState_def sampleResult_def newAIComments_def newAIComment_def)

section \<open>The text selection\<close>

lemma trim_all_white:
  assumes "\<forall>c \<in> set s. isWhiteSpace c"
  shows "trim s = []"
proof -
  have "dropWhile isWhiteSpace s = []" using assms by simp
  then show ?thesis unfolding trim_def by (simp only: rev.simps dropWhile.simps)
qed

text \<open>
  What the handler stores: in comment mode, for a selection with a range and its
  anchor inside the content element, the selected text kept is the trimmed selection
  string, \<open>start\<close> is the length of the rendered text before the selection as it was
  made, and \<open>end\<close> is \<open>start\<close> plus the length of the trimmed text; an empty or blank
  selection clears the range.
\<close>

lemma handleTextSelection_range:
  assumes "isCommentMode st" and "rangeCount sel \<noteq> 0" and "anchorInContent sel"
  shows "(trim (selectionString sel) \<noteq> [] \<longrightarrow>
            selectedText (handleTextSelection (Some sel) st) = trim (selectionString sel) \<and>
            selectionRange (handleTextSelection (Some sel) st) =
              Some (length (preSelectionString sel),
                    length (preSelectionString sel) + length (trim (selectionString sel)))) \<and>
         ((\<forall>c \<in> set (selectionString sel). isWhiteSpace c) \<longrightarrow>
            selectionRange (handleTextSelection (Some sel) st) = None)"
  using assms by (auto simp add: handleTextSelection_def clearSelection_def Let_def trim_all_white)

text \<open>
  Selecting \<open>world\<close>, characters 6 to 11 of \<open>Hello world\<close>, gives (6, 11); selecting
  two blanks gives null.
\<close>

lemma handleTextSelection_examples:
  "selectionRange (handleTextSelection
      (Some \<lparr>rangeCount = 1, anchorInContent = True, selectionString = ''world'',
             preSelectionString = ''Hello ''\<rparr>) (sampleState ''Hello world'' [])) = Some (6, 11) \<and>
   selectionRange (handleTextSelection
      (Some \<lparr>rangeCount = 1, anchorInContent = True, selectionString = ''  '',
             preSelectionString = ''Hello''\<rparr>) (sampleState ''Hello  world'' [])) = None"
  by (simp add: handleTextSelection_def clearSelection_def sampleState_def trim_def
      isWhiteSpace_def Let_def)

text \<open>
  C7. The range should be \<open>start\<close>, the number of rendered characters before the
  start of the selection, and \<open>end = start +\<close> the length of the selected text. The
  handler trims the selected text and takes the length of the trimmed text, but
  leaves \<open>start\<close> where the untrimmed selection begins. Selecting \<open> world\<close>, blank
  included, after \<open>Hello\<close> in \<open>Hello world\<close> (the DOM answers \<open>Hello\<close> for the text
  before the selection and \<open> world\<close> for the selection) stores the range (5, 10),
  which is neither the selection (5, 11) nor the trimmed word (6, 11): it spells
  \<open> worl\<close>, while the selected text kept beside it is \<open>world\<close>.
\<close>

theorem selection_leading_blank_shifted:
  "selectionRange (handleTextSelection
      (Some \<lparr>rangeCount = 1, anchorInContent = True, selectionString = '' world'',
             preSelectionString = ''Hello''\<rparr>) (sampleState ''Hello world'' [])) = Some (5, 10) \<and>
   selectedText (handleTextSelection
      (Some \<lparr>rangeCount = 1, anchorInContent = True, selectionString = '' world'',
             preSelectionString = ''Hello''\<rparr>) (sampleState ''Hello world'' [])) = ''world'' \<and>
   substring ''Hello world'' 5 10 = '' worl'' \<and>
   Some (5, 10) \<noteq> Some (length ''Hello'', length ''Hello'' + length '' world'')"
  by (simp add: handleTextSelection_def clearSelection_def sampleState_def trim_def
      isWhiteSpace_def substring_def clampIndex_def Let_def)

section \<open>Rubric scores\<close>

lemma clampedScore_nonneg: "0 \<le> clampedScore v m"
  by (cases v) simp_all

lemma clampedScore_le_max: "0 \<le> m \<Longrightarrow> clampedScore v m \<le> m"
  by (cases v) simp_all

lemma clampedScore_zero: "clampedScore NaN m = 0" "clampedScore (Finite 0) m = 0"
  by (simp_all add: max_def min_def)

lemma clampedScore_negative_max: "m < 0 \<Longrightarrow> clampedScore v m = 0"
  by (cases v) simp_all

text \<open>
  The guard of \<^verbatim>\<open>recalculateFinalScore\<close>: when the sum of the maximal scores, as
  the platform computes it, is not positive, the final score is 0 whatever the
  platform's division answers, for a zero divisor too.
\<close>

lemma recalculate_guard:
  "\<not> jsPositive (maxTotal ar ss) \<Longrightarrow> finalScore (recalculateFinalScore ar ss st) = Finite 0"
  by (simp add: recalculateFinalScore_def Let_def)

lemma recalculate_subScores: "subScores (recalculateFinalScore ar ss st) = subScores st"
  by (simp add: recalculateFinalScore_def Let_def)

text \<open>Maximal scores that are all 0 sum to 0 as soon as \<open>0 + 0\<close> is 0 for the platform.\<close>

lemma maxTotal_all_zero:
  assumes "js_plus ar (Finite 0) (Finite 0) = Finite 0" and "\<forall>s \<in> set ss. maxScore s = 0"
  shows "maxTotal ar ss = Finite 0"
proof -
  have "foldl (\<lambda>sum item. js_plus ar sum (Finite (maxScore item))) (Finite 0) ss = Finite 0"
    using assms(2) by (induction ss) (simp_all add: assms(1))
  then show ?thesis by (simp add: maxTotal_def)
qed

text \<open>An index outside the rubric throws before anything is stored.\<close>

lemma updateSubScore_outside_rubric:
  "index < 0 \<or> int (length (subScores st)) \<le> index \<Longrightarrow>
   updateSubScore ar toNumber index newScore st = Inl TypeError"
  by (auto simp add: updateSubScore_def)

text \<open>What an update inside the rubric stores.\<close>

lemma updateSubScore_inside_rubric:
  assumes "0 \<le> index" and "index < int (length (subScores st))"
  shows "updateSubScore ar toNumber index newScore st =
           Inr (recalculateFinalScore ar
                  ((subScores st)[nat index := (subScores st ! nat index)
                      \<lparr>score := clampedScore (scoreValue toNumber newScore)
                                  (maxScore (subScores st ! nat index))\<rparr>])
                  (st\<lparr>subScores := (subScores st)[nat index := (subScores st ! nat index)
                      \<lparr>score := clampedScore (scoreValue toNumber newScore)
                                  (maxScore (subScores st ! nat index))\<rparr>]\<rparr>))"
  using assms by (simp add: updateSubScore_def Let_def)

text \<open>For an item whose maximal score is negative the stored score is 0.\<close>

lemma updateSubScore_negative_max:
  assumes "0 \<le> index" and "index < int (length (subScores st))"
    and "maxScore (subScores st ! nat index) < 0"
    and "updateSubScore ar toNumber index newScore st = Inr st'"
  shows "score (subScores st' ! nat index) = 0"
proof -
  have "nat index < length (subScores st)" using assms(1,2) by (simp add: nat_less_iff)
  then show ?thesis
    using assms(3,4) unfolding updateSubScore_inside_rubric[OF assms(1,2)]
    by (auto simp add: recalculate_subScores clampedScore_negative_max)
qed

text \<open>
  C10. For a rubric item inside the rubric whose maximal score is not negative, and
  any input string or number, the update returns, the maximal score is kept and the
  stored score lies between 0 and it; an empty string, or an input that is not a
  number, stores 0; and the recomputed final score is 0 whenever the sum of the
  maximal scores (as the page computes it) is 0, or not positive: the division is
  not reached then.
\<close>

theorem subscore_update_bounds:
  assumes "0 \<le> index" and "index < int (length (subScores st))"
    and "0 \<le> maxScore (subScores st ! nat index)"
  shows "\<exists>st'. updateSubScore ar toNumber index newScore st = Inr st' \<and>
           length (subScores st') = length (subScores st) \<and>
           maxScore (subScores st' ! nat index) = maxScore (subScores st ! nat index) \<and>
           0 \<le> score (subScores st' ! nat index) \<and>
           score (subScores st' ! nat index) \<le> maxScore (subScores st' ! nat index) \<and>
           (newScore = StringInput [] \<or> scoreValue toNumber newScore = NaN \<longrightarrow>
              score (subScores st' ! nat index) = 0) \<and>
           (\<not> jsPositive (maxTotal ar (subScores st')) \<longrightarrow> finalScore st' = Finite 0)"
proof -
  define i where "i = nat index"
  define item where "item = subScores st ! i"
  define updated where
    "updated = (subScores st)[i := item\<lparr>score := clampedScore (scoreValue toNumber newScore) (maxScore item)\<rparr>]"
  define st' where "st' = recalculateFinalScore ar updated (st\<lparr>subScores := updated\<rparr>)"
  have i: "i < length (subScores st)" using assms(1,2) by (simp add: i_def nat_less_iff)
  have run: "updateSubScore ar toNumber index newScore st = Inr st'"
    unfolding updateSubScore_inside_rubric[OF assms(1,2)]
    by (simp add: st'_def updated_def item_def i_def)
  have subs: "subScores st' = updated"
    by (simp add: st'_def recalculate_subScores)
  have at_i: "subScores st' ! i = item\<lparr>score := clampedScore (scoreValue toNumber newScore) (maxScore item)\<rparr>"
    using i by (simp add: subs updated_def)
  have item_max: "0 \<le> maxScore item"
    using assms(3) by (simp add: item_def i_def)
  have blank: "scoreValue toNumber newScore = Finite 0" if "newScore = StringInput []"
    using that by (simp add: scoreValue_def)
  have "length (subScores st') = length (subScores st)"
    by (simp add: subs updated_def)
  moreover have "maxScore (subScores st' ! i) = maxScore (subScores st ! i)"
    by (simp add: at_i item_def)
  moreover have "0 \<le> score (subScores st' ! i)"
    by (simp add: at_i clampedScore_nonneg)
  moreover have "score (subScores st' ! i) \<le> maxScore (subScores st' ! i)"
    using item_max by (simp add: at_i clampedScore_le_max)
  moreover have "score (subScores st' ! i) = 0"
    if "newScore = StringInput [] \<or> scoreValue toNumber newScore = NaN"
    using that blank by (auto simp add: at_i clampedScore_zero)
  moreover have "finalScore st' = Finite 0" if "\<not> jsPositive (maxTotal ar (subScores st'))"
    using that unfolding subs unfolding st'_def by (rule recalculate_guard)
  ultimately show ?thesis
    using run unfolding i_def by blast
qed

text \<open>
  \<open>45\<close> against a maximum of 30; a string that is not a number; a rubric whose only
  maximum is 0, with an arithmetic whose division by zero is not a number.
\<close>

theorem subscore_update_bounds_witness:
  "(\<exists>st'. updateSubScore sampleArith sampleToNumber 0 (StringInput ''45'') (sampleState ''Essay'' []) = Inr st' \<and>
      score (subScores st' ! 0) = 30 \<and> score (subScores st' ! 0) \<le> maxScore (subScores st' ! 0)) \<and>
   (\<exists>st'. updateSubScore sampleArith sampleToNumber 1 (StringInput ''abc'') (sampleState ''Essay'' []) = Inr st' \<and>
      score (subScores st' ! 1) = 0) \<and>
   (\<exists>st'. updateSubScore sampleArith sampleToNumber 0 (StringInput ''45'') zeroRubric = Inr st' \<and>
      \<not> jsPositive (maxTotal sampleArith (subScores st')) \<and> finalScore st' = Finite 0)"
proof -
  let ?st = "sampleState ''Essay'' []"
  have len: "(0::int) < int (length (subScores ?st))" "(1::int) < int (length (subScores ?st))"
    "(0::int) < int (length (subScores zeroRubric))"
    by (simp_all add: sampleState_def zeroRubric_def initialSubScores_def defaultRubric_def)
  have mx: "0 \<le> maxScore (subScores ?st ! nat 0)" "0 \<le> maxScore (subScores ?st ! nat 1)"
    "0 \<le> maxScore (subScores zeroRubric ! nat 0)"
    by (simp_all add: sampleState_def zeroRubric_def initialSubScores_def defaultRubric_def)
  obtain s1 where s1: "updateSubScore sampleArith sampleToNumber 0 (StringInput ''45'') ?st = Inr s1"
    "score (subScores s1 ! 0) \<le> maxScore (subScores s1 ! 0)"
    using subscore_update_bounds[OF _ len(1) mx(1), of sampleArith sampleToNumber "StringInput ''45''"]
    by auto
  have v1: "score (subScores s1 ! 0) = 30"
    using s1(1) unfolding updateSubScore_inside_rubric[OF order_refl len(1)]
    by (auto simp add: recalculate_subScores sampleToNumber_def scoreValue_def sampleState_def
        initialSubScores_def defaultRubric_def)
  have nan: "scoreValue sampleToNumber (StringInput ''abc'') = NaN"
    by (simp add: scoreValue_def sampleToNumber_def)
  obtain s2 where s2: "updateSubScore sampleArith sampleToNumber 1 (StringInput ''abc'') ?st = Inr s2"
    "score (subScores s2 ! 1) = 0"
    using subscore_update_bounds[OF _ len(2) mx(2), of sampleArith sampleToNumber "StringInput ''abc''"] nan
    by auto
  obtain s3 where s3: "updateSubScore sampleArith sampleToNumber 0 (StringInput ''45'') zeroRubric = Inr s3"
    "\<not> jsPositive (maxTotal sampleArith (subScores s3)) \<longrightarrow> finalScore s3 = Finite 0"
    using subscore_update_bounds[OF _ len(3) mx(3), of sampleArith sampleToNumber "StringInput ''45''"]
    by auto
  have "maxTotal sampleArith (subScores s3) = Finite 0"
    using s3(1) unfolding updateSubScore_inside_rubric[OF order_refl len(3)]
    by (auto simp add: recalculate_subScores zeroRubric_def maxTotal_def sampleArith_def)
  then have z: "\<not> jsPositive (maxTotal sampleArith (subScores s3))" by simp
  with s3(2) have "finalScore s3 = Finite 0" by simp
  with s1 v1 s2 s3(1) z show ?thesis by blast
qed

end
